theory Spec2Isabelle
  imports Main "HOL-Library.Word"
begin

section \<open>JavaScript built-ins used by the edge functions\<close>

text \<open>
  The three Supabase edge functions (register, login, upload-video-metadata) are
  TypeScript handlers running on Deno. Strings of the handlers are modelled as
  \<open>string\<close>; a \<open>char\<close> stands for a UTF-16 code unit below 256. The content of a
  \<open>Uint8Array\<close> is a list of 8-bit words.
\<close>

type_synonym byte = "8 word"

text \<open>\<open>Number.prototype.toString(16)\<close>: lower-case digits, no leading zero.\<close>

definition hex_digit :: "nat \<Rightarrow> char" where
  "hex_digit n = ''0123456789abcdef'' ! n"

function toString16 :: "nat \<Rightarrow> string" where
  "toString16 n =
     (if n < 16 then [hex_digit n] else toString16 (n div 16) @ [hex_digit (n mod 16)])"
  by pat_completeness auto
termination
  by (relation "measure id") auto

declare toString16.simps [simp del]

text \<open>\<open>String.prototype.padStart(n, c)\<close> for a one-character filler.\<close>

definition padStart :: "nat \<Rightarrow> char \<Rightarrow> string \<Rightarrow> string" where
  "padStart n c s = replicate (n - length s) c @ s"


text \<open>
  White space: the class \<open>\s\<close> of regular expressions holds, of the code units below
  256, tab, line feed, vertical tab, form feed, carriage return, space and no-break space.
\<close>

definition strWhiteSpaceChar :: "char \<Rightarrow> bool" where
  "strWhiteSpaceChar c =
     (c \<in> set [CHR 0x09, CHR 0x0A, CHR 0x0B, CHR 0x0C, CHR 0x0D, CHR 0x20, CHR 0xA0])"

section \<open>Hex encoding of the wrapped-key bundle\<close>

text \<open>
  Register, lines 127-130:
  \<^verbatim>\<open>Array.from(salt).map(b => b.toString(16).padStart(2, '0')).join('')\<close>
\<close>

definition bytes_to_hex :: "byte list \<Rightarrow> string" where
  "bytes_to_hex bs = concat (map (\<lambda>b. padStart 2 CHR ''0'' (toString16 (unat b))) bs)"

section \<open>External libraries\<close>

text \<open>
  The handlers call the Web Crypto API, \<open>bcrypt\<close> and \<open>djwt\<close>. None of them is part of
  the repository, so they are parameters of the model: a \<open>platform\<close> holds one function
  per library call that a handler makes, with the arguments the handler passes.
\<close>

record jwt_payload =
  jwt_sub :: string
  jwt_email :: string
  jwt_walletAddress :: string
  jwt_iat :: nat
  jwt_exp :: nat

text \<open>
  The result of \<open>crypto.subtle.importKey('raw', bytes, {name: 'HMAC', hash: h}, ...)\<close>:
  the hash name and the raw key bytes.
\<close>

type_synonym hmac_key = "string \<times> byte list"

record platform =
  textEncode :: "string \<Rightarrow> byte list"
  pbkdf2 :: "string \<Rightarrow> nat \<Rightarrow> byte list \<Rightarrow> byte list \<Rightarrow> nat \<Rightarrow> byte list"
  aesGcmEncrypt :: "byte list \<Rightarrow> byte list \<Rightarrow> byte list \<Rightarrow> byte list"
  bcryptHash :: "string \<Rightarrow> string"
  bcryptVerify :: "string \<Rightarrow> string \<Rightarrow> bool"
  jwtCreate :: "string \<Rightarrow> hmac_key \<Rightarrow> jwt_payload \<Rightarrow> string"

text \<open>
  \<^item> \<open>textEncode\<close>: \<open>new TextEncoder().encode\<close>.
  \<^item> \<open>pbkdf2 hash iterations salt password bits\<close>: \<open>crypto.subtle.deriveKey\<close> with
    \<open>{name: 'PBKDF2', salt, iterations, hash}\<close> from the imported password bytes, for an
    AES-GCM key of \<open>bits\<close> bits.
  \<^item> \<open>aesGcmEncrypt key iv data\<close>: \<open>crypto.subtle.encrypt\<close> with \<open>{name: 'AES-GCM', iv}\<close>.
  \<^item> \<open>bcryptHash\<close>, \<open>bcryptVerify password hash\<close>: \<open>hash\<close> and \<open>verify\<close> of bcrypt.
  \<^item> \<open>jwtCreate alg key payload\<close>: \<open>create({alg, typ: 'JWT'}, payload, key)\<close> of djwt.
\<close>

text \<open>\<open>getNumericDate(date)\<close> of djwt: \<open>Math.round(date.getTime() / 1000)\<close>.\<close>

definition getNumericDate :: "nat \<Rightarrow> nat" where
  "getNumericDate ms = (ms + 500) div 1000"

section \<open>The database (schema.sql)\<close>

record user_row =
  u_id :: string
  u_email :: string
  u_username :: string
  u_passwordHash :: string
  u_walletAddress :: string
  u_encryptedPrivateKey :: string
  u_salt :: string
  u_iv :: string
  u_createdAt :: string
  u_updatedAt :: string

record video_row =
  v_id :: string
  v_title :: string
  v_videoUrl :: string
  v_ownerId :: string
  v_signature :: string
  v_createdAt :: string

record db =
  users :: "user_row list"
  videos :: "video_row list"

datatype db_error = NoSingleRow | UniqueViolation string

text \<open>\<open>.single()\<close>: the row when the query yields exactly one, an error otherwise.\<close>

definition single :: "'a list \<Rightarrow> db_error + 'a" where
  "single rows = (case rows of [r] \<Rightarrow> Inr r | _ \<Rightarrow> Inl NoSingleRow)"

text \<open>\<open>.from('User').select(...).eq('email', email).single()\<close>: text equality.\<close>

definition select_user_by_email :: "db \<Rightarrow> string \<Rightarrow> db_error + user_row" where
  "select_user_by_email d email = single (filter (\<lambda>u. u_email u = email) (users d))"

text \<open>
  \<open>.from('User').insert(row).select().single()\<close> under the constraints of the
  \<open>"User"\<close> table: primary key \<open>id\<close>, and \<open>UNIQUE\<close> on \<open>email\<close>, \<open>username\<close> and
  \<open>walletAddress\<close>.
\<close>

definition insert_user :: "db \<Rightarrow> user_row \<Rightarrow> db_error + user_row \<times> db" where
  "insert_user d r =
     (if u_id r \<in> set (map u_id (users d)) then Inl (UniqueViolation ''User_pkey'')
      else if u_email r \<in> set (map u_email (users d))
        then Inl (UniqueViolation ''User_email_key'')
      else if u_username r \<in> set (map u_username (users d))
        then Inl (UniqueViolation ''User_username_key'')
      else if u_walletAddress r \<in> set (map u_walletAddress (users d))
        then Inl (UniqueViolation ''User_walletAddress_key'')
      else Inr (r, d\<lparr>users := users d @ [r]\<rparr>))"

text \<open>\<open>.from('User').update({ updatedAt: ts }).eq('id', uid)\<close>\<close>

definition update_user_updatedAt :: "db \<Rightarrow> string \<Rightarrow> string \<Rightarrow> db" where
  "update_user_updatedAt d uid ts =
     d\<lparr>users := map (\<lambda>u. if u_id u = uid then u\<lparr>u_updatedAt := ts\<rparr> else u) (users d)\<rparr>"

section \<open>Requests and responses\<close>

record 'a request =
  req_method :: string
  req_authorization :: "string option"
  req_json :: "'a option"

text \<open>
  \<open>req_authorization\<close> is \<open>req.headers.get('Authorization')\<close> (\<open>None\<close> for \<open>null\<close>);
  \<open>req_json\<close> is the result of \<open>await req.json()\<close>, \<open>None\<close> when it throws.
\<close>

record RegisterRequest =
  reg_email :: string
  reg_password :: string

record LoginRequest =
  login_email :: string
  login_password :: string

record UploadVideoMetadataRequest =
  up_videoUrl :: string
  up_title :: string
  up_password :: string

record user_public =
  pub_id :: string
  pub_email :: string
  pub_username :: string
  pub_walletAddress :: string
  pub_createdAt :: string

datatype body =
    Text string
  | ErrorBody string
  | RegisterOk string user_public
  | LoginOk string string user_public

record response =
  status :: nat
  headers :: "(string \<times> string) list"
  body :: body

definition corsHeaders :: "(string \<times> string) list" where
  "corsHeaders =
     [(''Access-Control-Allow-Origin'', ''*''),
      (''Access-Control-Allow-Headers'', ''authorization, x-client-info, apikey, content-type'')]"

definition preflight_response :: response where
  "preflight_response = \<lparr>status = 200, headers = corsHeaders, body = Text ''ok''\<rparr>"

definition json_response :: "nat \<Rightarrow> body \<Rightarrow> response" where
  "json_response st b =
     \<lparr>status = st, headers = corsHeaders @ [(''Content-Type'', ''application/json'')], body = b\<rparr>"

definition error_response :: "nat \<Rightarrow> string \<Rightarrow> response" where
  "error_response st msg = json_response st (ErrorBody msg)"

text \<open>The outer \<open>catch\<close> of every handler.\<close>

definition internal_server_error :: response where
  "internal_server_error = error_response 500 ''Internal server error''"

definition public_user :: "user_row \<Rightarrow> user_public" where
  "public_user u =
     \<lparr>pub_id = u_id u, pub_email = u_email u, pub_username = u_username u,
      pub_walletAddress = u_walletAddress u, pub_createdAt = u_createdAt u\<rparr>"

section \<open>Wrapping the private key\<close>

record wrapped_key =
  wk_encryptedPrivateKey :: string
  wk_salt :: string
  wk_iv :: string

text \<open>
  Register, lines 94-130: the key is derived from the password with PBKDF2 (SHA-256,
  100000 iterations, the fresh salt), the private key is encrypted with AES-GCM under the
  fresh iv, and the three byte arrays are stored as hex strings.
\<close>

definition wrapPrivateKey ::
  "platform \<Rightarrow> string \<Rightarrow> string \<Rightarrow> byte list \<Rightarrow> byte list \<Rightarrow> wrapped_key" where
  "wrapPrivateKey P privateKey password salt iv =
     (let key = pbkdf2 P ''SHA-256'' 100000 salt (textEncode P password) 256;
          encryptedPrivateKey = aesGcmEncrypt P key iv (textEncode P privateKey)
      in \<lparr>wk_encryptedPrivateKey = bytes_to_hex encryptedPrivateKey,
          wk_salt = bytes_to_hex salt,
          wk_iv = bytes_to_hex iv\<rparr>)"

section \<open>The register function\<close>

text \<open>
  The regular expression \<^verbatim>\<open>/^[^\s@]+@[^\s@]+\.[^\s@]+$/\<close>. The class \<open>\s\<close> is
  \<open>strWhiteSpaceChar\<close>. A string
  matches when it is a non-empty run of \<open>[^\s@]\<close>, an \<open>@\<close>, and a run of \<open>[^\s@]\<close> with
  a dot that is neither its first nor its last character.
\<close>

definition emailChar :: "char \<Rightarrow> bool" where
  "emailChar c = (\<not> strWhiteSpaceChar c \<and> c \<noteq> CHR ''@'')"

definition emailRegex_test :: "string \<Rightarrow> bool" where
  "emailRegex_test s =
     (let rest = dropWhile emailChar s in
      takeWhile emailChar s \<noteq> [] \<and> take 1 rest = ''@'' \<and>
      list_all emailChar (drop 1 rest) \<and> CHR ''.'' \<in> set (butlast (drop 2 rest)))"

text \<open>
  What the handler takes from its environment: the wallet of
  \<open>ethers.Wallet.createRandom()\<close> (address and private key), the entropy read by
  \<open>crypto.getRandomValues\<close>, the transactions other requests commit between the lookup and
  the insert, and the column defaults of the database (\<open>gen_random_uuid()\<close>, \<open>now()\<close>).
  The lookup and the insert are two requests to the database and nothing serializes them:
  \<open>reg_concurrent\<close> is the identity when no other request commits in between. Login is
  modelled one request at a time.
\<close>

record register_env =
  reg_wallet :: "string \<times> string"
  reg_random :: "nat \<Rightarrow> byte"
  reg_concurrent :: "db \<Rightarrow> db"
  reg_uuid :: string
  reg_now :: string

definition random_bytes :: "(nat \<Rightarrow> byte) \<Rightarrow> nat \<Rightarrow> nat \<Rightarrow> byte list" where
  "random_bytes src off n = map src [off..<off + n]"

definition new_user_row :: "platform \<Rightarrow> register_env \<Rightarrow> string \<Rightarrow> string \<Rightarrow> user_row" where
  "new_user_row P E email password =
     (let passwordHash = bcryptHash P password;
          walletAddress = fst (reg_wallet E);
          privateKey = snd (reg_wallet E);
          salt = random_bytes (reg_random E) 0 32;
          iv = random_bytes (reg_random E) 32 12;
          w = wrapPrivateKey P privateKey password salt iv
      in \<lparr>u_id = reg_uuid E,
          u_email = email,
          u_username = walletAddress,
          u_passwordHash = passwordHash,
          u_walletAddress = walletAddress,
          u_encryptedPrivateKey = wk_encryptedPrivateKey w,
          u_salt = wk_salt w,
          u_iv = wk_iv w,
          u_createdAt = reg_now E,
          u_updatedAt = reg_now E\<rparr>)"

definition register ::
  "platform \<Rightarrow> register_env \<Rightarrow> db \<Rightarrow> RegisterRequest request \<Rightarrow> response \<times> db" where
  "register P E d req =
     (if req_method req = ''OPTIONS'' then (preflight_response, d)
      else case req_json req of
        None \<Rightarrow> (internal_server_error, d)
      | Some b \<Rightarrow>
          if reg_email b = [] \<or> reg_password b = []
            then (error_response 400 ''Email and password are required'', d)
          else if \<not> emailRegex_test (reg_email b)
            then (error_response 400 ''Invalid email format'', d)
          else if length (reg_password b) < 8
            then (error_response 400 ''Password must be at least 8 characters long'', d)
          else (case select_user_by_email d (reg_email b) of
            Inr existingUser \<Rightarrow>
              (error_response 409 ''User already exists with this email'', d)
          | Inl checkError \<Rightarrow>
              let d1 = reg_concurrent E d in
              (case insert_user d1 (new_user_row P E (reg_email b) (reg_password b)) of
                 Inl insertError \<Rightarrow>
                   (error_response 500 ''Failed to create user account'', d1)
               | Inr (user, d2) \<Rightarrow>
                   (json_response 201
                      (RegisterOk ''User registered successfully'' (public_user user)), d2))))"

section \<open>The login function\<close>

text \<open>
  The clock readings of the handler, in the order it takes them: \<open>new Date()\<close> for
  \<open>iat\<close> and \<open>Date.now()\<close> for \<open>exp\<close> (milliseconds), and \<open>new Date().toISOString()\<close> for
  \<open>updatedAt\<close>; and the variable \<open>JWT_SECRET\<close> of the environment.
\<close>

record login_env =
  login_secret :: string
  login_date_iat :: nat
  login_date_exp :: nat
  login_date_updated :: string

definition login_payload :: "login_env \<Rightarrow> user_row \<Rightarrow> jwt_payload" where
  "login_payload E user =
     \<lparr>jwt_sub = u_id user,
      jwt_email = u_email user,
      jwt_walletAddress = u_walletAddress user,
      jwt_iat = getNumericDate (login_date_iat E),
      jwt_exp = getNumericDate (login_date_exp E + 7 * 24 * 60 * 60 * 1000)\<rparr>"

definition login ::
  "platform \<Rightarrow> login_env \<Rightarrow> db \<Rightarrow> LoginRequest request \<Rightarrow> response \<times> db" where
  "login P E d req =
     (if req_method req = ''OPTIONS'' then (preflight_response, d)
      else case req_json req of
        None \<Rightarrow> (internal_server_error, d)
      | Some b \<Rightarrow>
          if login_email b = [] \<or> login_password b = []
            then (error_response 400 ''Email and password are required'', d)
          else (case select_user_by_email d (login_email b) of
            Inl findError \<Rightarrow> (error_response 401 ''Invalid email or password'', d)
          | Inr user \<Rightarrow>
              if \<not> bcryptVerify P (login_password b) (u_passwordHash user)
                then (error_response 401 ''Invalid email or password'', d)
              else
                let key = (''SHA-256'', textEncode P (login_secret E));
                    token = jwtCreate P ''HS256'' key (login_payload E user);
                    d1 = update_user_updatedAt d (u_id user) (login_date_updated E)
                in (json_response 200
                      (LoginOk ''Login successful'' token (public_user user)), d1)))"

section \<open>Loading a module\<close>

text \<open>
  Each edge function is an ECMAScript module. A module is parsed as a whole before any
  statement of it runs, and it is an early error, a \<open>SyntaxError\<close>, when one block
  declares a name twice with \<open>const\<close> or \<open>let\<close>. A module with an early error is
  rejected: none of it is evaluated, so the handler it passes to \<open>serve\<close> is never
  registered and no request is answered by it. A block is given here by the names it
  declares itself (those of nested blocks apart), each with the line of the declaration,
  in the order of the source.
\<close>

datatype module_error = SyntaxError string

fun first_duplicate :: "string list \<Rightarrow> string option" where
  "first_duplicate [] = None"
| "first_duplicate (x # xs) = (if x \<in> set xs then Some x else first_duplicate xs)"

definition load_module :: "(string \<times> nat) list \<Rightarrow> module_error option" where
  "load_module declarations =
     (case first_duplicate (map fst declarations) of
        None \<Rightarrow> None
      | Some name \<Rightarrow> Some (SyntaxError name))"

text \<open>The \<open>try\<close> block of the register handler (lines 22-176 of its module).\<close>

definition register_declarations :: "(string \<times> nat) list" where
  "register_declarations =
     [(''email'', 23), (''password'', 23), (''emailRegex'', 37), (''supabaseUrl'', 60),
      (''supabaseServiceKey'', 61), (''supabase'', 63), (''existingUser'', 66),
      (''checkError'', 66), (''passwordHash'', 83), (''wallet'', 86),
      (''walletAddress'', 87), (''privateKey'', 88), (''salt'', 91), (''iv'', 92),
      (''keyMaterial'', 95), (''key'', 103), (''encryptedPrivateKey'', 117),
      (''saltHex'', 127), (''ivHex'', 128), (''encryptedPrivateKeyHex'', 129),
      (''user'', 133), (''insertError'', 133)]"

text \<open>The \<open>try\<close> block of the login handler (lines 247-342).\<close>

definition login_declarations :: "(string \<times> nat) list" where
  "login_declarations =
     [(''email'', 248), (''password'', 248), (''supabaseUrl'', 262),
      (''supabaseServiceKey'', 263), (''supabase'', 265), (''user'', 268),
      (''findError'', 268), (''isValidPassword'', 285), (''jwtSecret'', 298),
      (''key'', 299), (''payload'', 307), (''token'', 315)]"

section \<open>The upload-video-metadata function\<close>

text \<open>
  The \<open>try\<close> block of the upload-video-metadata handler (lines 31-216). The name
  \<open>key\<close> is declared with \<open>const\<close> at line 48, for the HMAC key of the token, and
  again with \<open>const\<close> at line 119, for the AES-GCM key derived from the password.
\<close>

definition upload_declarations :: "(string \<times> nat) list" where
  "upload_declarations =
     [(''authHeader'', 33), (''token'', 44), (''jwtSecret'', 47), (''key'', 48),
      (''payload'', 56), (''videoUrl'', 69), (''title'', 69), (''password'', 69),
      (''supabaseUrl'', 83), (''supabaseServiceKey'', 84), (''supabase'', 86),
      (''user'', 89), (''userError'', 89), (''salt'', 106), (''iv'', 107),
      (''encryptedPrivateKey'', 108), (''keyMaterial'', 111), (''key'', 119),
      (''decryptedPrivateKey'', 133), (''signer'', 155), (''message'', 169),
      (''signature'', 172), (''video'', 175), (''insertError'', 175)]"

text \<open>
  A request to the function. When the module is rejected the request gets the error of
  the module and the store is as it was. What the handler of an accepted module does
  with the store and the request is the parameter \<open>handler\<close>: the text of lines 25-226
  has a meaning only in a module that is accepted.
\<close>

definition upload_video_metadata ::
  "(db \<Rightarrow> UploadVideoMetadataRequest request \<Rightarrow> response \<times> db) \<Rightarrow>
   db \<Rightarrow> UploadVideoMetadataRequest request \<Rightarrow> (module_error + response) \<times> db" where
  "upload_video_metadata handler d req =
     (case load_module upload_declarations of
        Some e \<Rightarrow> (Inl e, d)
      | None \<Rightarrow> (Inr (fst (handler d req)), snd (handler d req)))"

section \<open>Case-insensitive comparison of emails\<close>

text \<open>
  \<open>String.prototype.toLowerCase\<close> on code units below 256: the letters \<open>A\<close> to \<open>Z\<close>
  and the upper-case letters of Latin-1 move by 32. Two emails are equal without regard
  to case when their lower-case forms are equal. No handler calls it: it states what a
  case-insensitive lookup would compare.
\<close>

definition lowerChar :: "char \<Rightarrow> char" where
  "lowerChar c =
     (let n = (of_char c :: nat) in
      if 65 \<le> n \<and> n \<le> 90 then char_of (n + 32)
      else if 192 \<le> n \<and> n \<le> 222 \<and> n \<noteq> 215 then char_of (n + 32)
      else c)"

definition toLowerCase :: "string \<Rightarrow> string" where
  "toLowerCase s = map lowerChar s"

section \<open>A small instance of the external libraries\<close>

text \<open>
  The theorems on register and login hold for every \<open>platform\<close>. To run the handlers
  on concrete requests, \<open>demo_platform\<close> gives each library call a small executable
  stand-in: text is encoded byte per code unit, the derived key is cut from password and
  salt, the cipher appends a 16-byte tag cut from key and iv, and the token service
  issues one token.
\<close>

definition demo_encode :: "string \<Rightarrow> byte list" where
  "demo_encode s = map (\<lambda>c. of_nat (of_char c)) s"

definition demo_tag :: "byte list \<Rightarrow> byte list \<Rightarrow> byte list" where
  "demo_tag key iv = take 16 (key @ iv @ replicate 16 0)"

definition demo_platform :: platform where
  "demo_platform =
     \<lparr>textEncode = demo_encode,
      pbkdf2 = (\<lambda>h n salt pw bits. take (bits div 8) (pw @ salt @ replicate (bits div 8) 0)),
      aesGcmEncrypt = (\<lambda>key iv data. data @ demo_tag key iv),
      bcryptHash = (\<lambda>pw. ''$2a$'' @ pw),
      bcryptVerify = (\<lambda>pw h. h = ''$2a$'' @ pw),
      jwtCreate = (\<lambda>alg key p. ''demo-token'')\<rparr>"

definition empty_db :: db where
  "empty_db = \<lparr>users = [], videos = []\<rparr>"

definition demo_register_env :: register_env where
  "demo_register_env =
     \<lparr>reg_wallet = (''0xA4c'', ''0x4c''),
      reg_random = (\<lambda>i. of_nat (7 * i + 3)),
      reg_concurrent = (\<lambda>d. d),
      reg_uuid = ''u1'',
      reg_now = ''1970-01-01 00:00:01.000000+00''\<rparr>"

definition demo_register_request :: "RegisterRequest request" where
  "demo_register_request =
     \<lparr>req_method = ''POST'', req_authorization = None,
      req_json = Some \<lparr>reg_email = ''a@x.com'', reg_password = ''Abcd1234''\<rparr>\<rparr>"

text \<open>The account that \<open>demo_register_request\<close> creates, and the store holding it.\<close>

definition demo_user :: user_row where
  "demo_user = new_user_row demo_platform demo_register_env ''a@x.com'' ''Abcd1234''"

definition demo_db :: db where
  "demo_db = \<lparr>users = [demo_user], videos = []\<rparr>"


text \<open>A second registration, with the email in another letter case.\<close>

definition demo_register_env2 :: register_env where
  "demo_register_env2 =
     \<lparr>reg_wallet = (''0xA5d'', ''0x5d''),
      reg_random = (\<lambda>i. of_nat (11 * i + 1)),
      reg_concurrent = (\<lambda>d. d),
      reg_uuid = ''u2'',
      reg_now = ''1970-01-01 00:00:02.000000+00''\<rparr>"

definition demo_register_request2 :: "RegisterRequest request" where
  "demo_register_request2 =
     \<lparr>req_method = ''POST'', req_authorization = None,
      req_json = Some \<lparr>reg_email = ''A@x.com'', reg_password = ''Abcd1234''\<rparr>\<rparr>"

text \<open>
  A registration of \<open>a@x.com\<close> on the empty store during which a concurrent registration
  of the same email commits between the lookup and the insert.
\<close>

definition demo_race_env :: register_env where
  "demo_race_env =
     \<lparr>reg_wallet = (''0xA5d'', ''0x5d''),
      reg_random = (\<lambda>i. of_nat (11 * i + 1)),
      reg_concurrent = (\<lambda>d. d\<lparr>users := users d @ [demo_user]\<rparr>),
      reg_uuid = ''u2'',
      reg_now = ''1970-01-01 00:00:02.000000+00''\<rparr>"

definition demo_login_env :: login_env where
  "demo_login_env =
     \<lparr>login_secret = ''secret'', login_date_iat = 5000, login_date_exp = 5000,
      login_date_updated = ''1970-01-01T00:00:05.000Z''\<rparr>"

definition demo_login_request :: "LoginRequest request" where
  "demo_login_request =
     \<lparr>req_method = ''POST'', req_authorization = None,
      req_json = Some \<lparr>login_email = ''a@x.com'', login_password = ''Abcd1234''\<rparr>\<rparr>"

text \<open>
  A signing call with the token that the demo login issues: the upload of end-to-end
  scenario B, with the password given.
\<close>

definition demo_upload_request :: "string \<Rightarrow> UploadVideoMetadataRequest request" where
  "demo_upload_request password =
     \<lparr>req_method = ''POST'', req_authorization = Some ''Bearer demo-token'',
      req_json = Some \<lparr>up_videoUrl = ''https://cdn/v1.mp4'', up_title = ''My Clip'',
                       up_password = password\<rparr>\<rparr>"

section \<open>Responses, lookups and the demo account\<close>

lemma status_simps [simp]:
  "status (error_response n m) = n" "status (json_response n b) = n" "status preflight_response = 200"
  "status internal_server_error = 500"
  by (simp_all add: error_response_def json_response_def preflight_response_def internal_server_error_def)

lemma single_none: "x \<notin> set (map f rows) \<Longrightarrow> single (filter (\<lambda>u. f u = x) rows) = Inl NoSingleRow"
proof -
  assume "x \<notin> set (map f rows)"
  then have "filter (\<lambda>u. f u = x) rows = []"
    by (auto simp: filter_empty_conv)
  then show ?thesis by (simp add: single_def)
qed

lemma single_mem: "single rows = Inr r \<Longrightarrow> r \<in> set rows"
  by (cases rows rule: list.exhaust) (auto simp: single_def split: list.splits)

lemma demo_user_fields [simp]:
  "u_id demo_user = ''u1''" "u_email demo_user = ''a@x.com''" "u_username demo_user = ''0xA4c''"
  "u_walletAddress demo_user = ''0xA4c''" "u_passwordHash demo_user = ''$2a$Abcd1234''"
  "u_createdAt demo_user = ''1970-01-01 00:00:01.000000+00''"
  by (simp_all add: demo_user_def new_user_row_def Let_def demo_register_env_def demo_platform_def)


lemma demo_request_fields [simp]:
  "req_method (demo_upload_request p) = ''POST''"
  "req_authorization (demo_upload_request p) = Some ''Bearer demo-token''"
  "req_json (demo_upload_request p) =
     Some \<lparr>up_videoUrl = ''https://cdn/v1.mp4'', up_title = ''My Clip'', up_password = p\<rparr>"
  by (simp_all add: demo_upload_request_def)


lemma demo_login_request_fields [simp]:
  "req_method demo_login_request = ''POST''"
  "req_json demo_login_request = Some \<lparr>login_email = ''a@x.com'', login_password = ''Abcd1234''\<rparr>"
  by (simp_all add: demo_login_request_def)

lemma demo_select_email: "select_user_by_email demo_db ''a@x.com'' = Inr demo_user"
  by (simp add: select_user_by_email_def demo_db_def single_def)


section \<open>The login function: frame and failures\<close>

lemma login_success:
  assumes "req_method req \<noteq> ''OPTIONS''" and "req_json req = Some b"
    and "login_email b \<noteq> []" and "login_password b \<noteq> []"
    and "select_user_by_email d (login_email b) = Inr user"
    and "bcryptVerify P (login_password b) (u_passwordHash user)"
  shows "login P E d req =
    (json_response 200 (LoginOk ''Login successful''
       (jwtCreate P ''HS256'' (''SHA-256'', textEncode P (login_secret E)) (login_payload E user))
       (public_user user)),
     update_user_updatedAt d (u_id user) (login_date_updated E))"
  using assms by (simp add: login_def Let_def)

lemma body_simps [simp]:
  "body (error_response n m) = ErrorBody m" "body (json_response n b) = b"
  "body preflight_response = Text ''ok''" "body internal_server_error = ErrorBody ''Internal server error''"
  by (simp_all add: error_response_def json_response_def preflight_response_def internal_server_error_def)

lemma login_cases:
  assumes "login P E d req = (resp, d')"
  shows "(d' = d \<and> (\<forall>m t u. body resp \<noteq> LoginOk m t u)) \<or>
    (\<exists>b user. req_method req \<noteq> ''OPTIONS'' \<and> req_json req = Some b \<and>
        login_email b \<noteq> [] \<and> login_password b \<noteq> [] \<and>
        select_user_by_email d (login_email b) = Inr user \<and>
        bcryptVerify P (login_password b) (u_passwordHash user) \<and>
        resp = json_response 200 (LoginOk ''Login successful''
          (jwtCreate P ''HS256'' (''SHA-256'', textEncode P (login_secret E)) (login_payload E user))
          (public_user user)) \<and>
        d' = update_user_updatedAt d (u_id user) (login_date_updated E))"
  using assms unfolding login_def Let_def
  by (auto split: option.splits if_splits sum.splits)

lemma update_frame:
  "videos (update_user_updatedAt d uid ts) = videos d"
  "map (\<lambda>u. u\<lparr>u_updatedAt := []\<rparr>) (users (update_user_updatedAt d uid ts)) =
   map (\<lambda>u. u\<lparr>u_updatedAt := []\<rparr>) (users d)"
  by (simp_all add: update_user_updatedAt_def o_def)

lemma update_rows:
  "row \<in> set (users (update_user_updatedAt d uid ts)) \<Longrightarrow>
   (u_id row = uid \<and> u_updatedAt row = ts) \<or> (u_id row \<noteq> uid \<and> row \<in> set (users d))"
  by (auto simp: update_user_updatedAt_def)

lemma select_by_email_mem:
  "select_user_by_email d e = Inr user \<Longrightarrow> user \<in> set (users d) \<and> u_email user = e"
  unfolding select_user_by_email_def by (drule single_mem) simp

text \<open>
  C8. Frame of login. Whatever the outcome, the \<open>Video\<close> table is unchanged and every
  account row keeps all its columns but \<open>updatedAt\<close>: \<open>email\<close>, \<open>username\<close>,
  \<open>passwordHash\<close>, \<open>walletAddress\<close>, \<open>encryptedPrivateKey\<close>, \<open>salt\<close> and \<open>iv\<close> (and
  \<open>id\<close>, \<open>createdAt\<close>) are as before. A login that does not succeed (unknown email,
  wrong password, bad request) leaves the store as it was. A successful login sets
  \<open>updatedAt\<close> of the rows with the id of the account found to the current time, and
  every other row is a row of the store before.
\<close>

theorem login_frame:
  assumes "login P E d req = (resp, d')"
  shows "videos d' = videos d \<and>
    map (\<lambda>u. u\<lparr>u_updatedAt := []\<rparr>) (users d') = map (\<lambda>u. u\<lparr>u_updatedAt := []\<rparr>) (users d) \<and>
    ((\<forall>m t u. body resp \<noteq> LoginOk m t u) \<longrightarrow> d' = d) \<and>
    (\<forall>m t u. body resp = LoginOk m t u \<longrightarrow>
       (\<exists>user \<in> set (users d). pub_id u = u_id user \<and>
          d' = update_user_updatedAt d (u_id user) (login_date_updated E) \<and>
          (\<forall>row \<in> set (users d').
             (u_id row = u_id user \<and> u_updatedAt row = login_date_updated E) \<or>
             (u_id row \<noteq> u_id user \<and> row \<in> set (users d)))))"
  using login_cases [OF assms]
proof (elim disjE exE conjE)
  assume "d' = d" and "\<forall>m t u. body resp \<noteq> LoginOk m t u"
  then show ?thesis by simp
next
  fix b user
  assume sel: "select_user_by_email d (login_email b) = Inr user"
    and resp: "resp = json_response 200 (LoginOk ''Login successful''
          (jwtCreate P ''HS256'' (''SHA-256'', textEncode P (login_secret E)) (login_payload E user))
          (public_user user))"
    and d': "d' = update_user_updatedAt d (u_id user) (login_date_updated E)"
  from select_by_email_mem [OF sel] have mem: "user \<in> set (users d)" by simp
  have rows: "\<forall>row \<in> set (users d').
             (u_id row = u_id user \<and> u_updatedAt row = login_date_updated E) \<or>
             (u_id row \<noteq> u_id user \<and> row \<in> set (users d))"
    unfolding d' using update_rows by blast
  have "\<exists>user' \<in> set (users d). u_id user = u_id user' \<and>
          d' = update_user_updatedAt d (u_id user') (login_date_updated E) \<and>
          (\<forall>row \<in> set (users d').
             (u_id row = u_id user' \<and> u_updatedAt row = login_date_updated E) \<or>
             (u_id row \<noteq> u_id user' \<and> row \<in> set (users d)))"
    using mem d' rows by blast
  then show ?thesis
    by (simp add: resp d' update_frame public_user_def)
qed

lemma demo_login_run:
  "login demo_platform demo_login_env demo_db demo_login_request =
    (json_response 200 (LoginOk ''Login successful'' ''demo-token'' (public_user demo_user)),
     update_user_updatedAt demo_db ''u1'' ''1970-01-01T00:00:05.000Z'')"
proof -
  have sel: "select_user_by_email demo_db ''a@x.com'' = Inr demo_user"
    by (simp add: select_user_by_email_def demo_db_def single_def)
  show ?thesis
    using login_success [of demo_login_request
        "\<lparr>login_email = ''a@x.com'', login_password = ''Abcd1234''\<rparr>" demo_db demo_user
        demo_platform demo_login_env] sel
    by (simp add: demo_login_request_def) (simp add: demo_platform_def demo_login_env_def)
qed

theorem login_frame_witness:
  "videos (update_user_updatedAt demo_db ''u1'' ''1970-01-01T00:00:05.000Z'') = videos demo_db \<and>
   map (\<lambda>u. u\<lparr>u_updatedAt := []\<rparr>)
     (users (update_user_updatedAt demo_db ''u1'' ''1970-01-01T00:00:05.000Z'')) =
   map (\<lambda>u. u\<lparr>u_updatedAt := []\<rparr>) (users demo_db) \<and>
   users (update_user_updatedAt demo_db ''u1'' ''1970-01-01T00:00:05.000Z'') =
     [demo_user\<lparr>u_updatedAt := ''1970-01-01T00:00:05.000Z''\<rparr>]"
  using login_frame [OF demo_login_run]
  by (simp add: update_user_updatedAt_def demo_db_def)

text \<open>
  C10. A login with an email that no account has and a login with a registered email
  whose password fails the bcrypt verification return the same response, status 401 with
  the message \<open>Invalid email or password\<close> (the headers are equal too), and both leave
  the store unchanged.
\<close>

theorem login_failures_identical:
  assumes "req_method req \<noteq> ''OPTIONS''" and "req_json req = Some b"
    and "login_email b \<noteq> []" and "login_password b \<noteq> []"
    and "login_email b \<notin> set (map u_email (users d))"
    and "req_method req' \<noteq> ''OPTIONS''" and "req_json req' = Some b'"
    and "login_email b' \<noteq> []" and "login_password b' \<noteq> []"
    and "select_user_by_email d' (login_email b') = Inr user"
    and "\<not> bcryptVerify P (login_password b') (u_passwordHash user)"
  shows "login P E d req = (error_response 401 ''Invalid email or password'', d) \<and>
         login P E' d' req' = (error_response 401 ''Invalid email or password'', d') \<and>
         fst (login P E d req) = fst (login P E' d' req')"
proof -
  have "select_user_by_email d (login_email b) = Inl NoSingleRow"
    unfolding select_user_by_email_def using assms(5) by (rule single_none)
  with assms(1-4) have 1: "login P E d req = (error_response 401 ''Invalid email or password'', d)"
    by (simp add: login_def)
  from assms(6-11) have 2: "login P E' d' req' = (error_response 401 ''Invalid email or password'', d')"
    by (simp add: login_def)
  from 1 2 show ?thesis by simp
qed

theorem login_failures_identical_witness:
  "login demo_platform demo_login_env demo_db
     \<lparr>req_method = ''POST'', req_authorization = None,
      req_json = Some \<lparr>login_email = ''b@x.com'', login_password = ''Abcd1234''\<rparr>\<rparr> =
     (error_response 401 ''Invalid email or password'', demo_db) \<and>
   login demo_platform demo_login_env demo_db
     \<lparr>req_method = ''POST'', req_authorization = None,
      req_json = Some \<lparr>login_email = ''a@x.com'', login_password = ''Wrong123''\<rparr>\<rparr> =
     (error_response 401 ''Invalid email or password'', demo_db) \<and>
   fst (login demo_platform demo_login_env demo_db
     \<lparr>req_method = ''POST'', req_authorization = None,
      req_json = Some \<lparr>login_email = ''b@x.com'', login_password = ''Abcd1234''\<rparr>\<rparr>) =
   fst (login demo_platform demo_login_env demo_db
     \<lparr>req_method = ''POST'', req_authorization = None,
      req_json = Some \<lparr>login_email = ''a@x.com'', login_password = ''Wrong123''\<rparr>\<rparr>)"
proof (rule login_failures_identical [where
      b = "\<lparr>login_email = ''b@x.com'', login_password = ''Abcd1234''\<rparr>"
      and b' = "\<lparr>login_email = ''a@x.com'', login_password = ''Wrong123''\<rparr>" and user = demo_user])
  show "select_user_by_email demo_db
     (login_email \<lparr>login_email = ''a@x.com'', login_password = ''Wrong123''\<rparr>) = Inr demo_user"
    by (simp add: select_user_by_email_def demo_db_def single_def)
  show "\<not> bcryptVerify demo_platform
     (login_password \<lparr>login_email = ''a@x.com'', login_password = ''Wrong123''\<rparr>) (u_passwordHash demo_user)"
    by (simp add: demo_platform_def)
qed (simp_all add: demo_db_def)

section \<open>The register function: conflicts and failed inserts\<close>

lemma register_taken:
  assumes "req_method req \<noteq> ''OPTIONS''" and "req_json req = Some b"
    and "reg_email b \<noteq> []" and "reg_password b \<noteq> []"
    and "emailRegex_test (reg_email b)" and "8 \<le> length (reg_password b)"
    and "select_user_by_email d (reg_email b) = Inr existingUser"
  shows "register P E d req = (error_response 409 ''User already exists with this email'', d)"
  using assms by (simp add: register_def)

lemma register_insert_failed:
  assumes "req_method req \<noteq> ''OPTIONS''" and "req_json req = Some b"
    and "reg_email b \<noteq> []" and "reg_password b \<noteq> []"
    and "emailRegex_test (reg_email b)" and "8 \<le> length (reg_password b)"
    and "select_user_by_email d (reg_email b) = Inl checkError"
    and "insert_user (reg_concurrent E d) (new_user_row P E (reg_email b) (reg_password b)) = Inl insertError"
  shows "register P E d req = (error_response 500 ''Failed to create user account'', reg_concurrent E d)"
  using assms by (simp add: register_def Let_def)

lemma register_created:
  assumes "req_method req \<noteq> ''OPTIONS''" and "req_json req = Some b"
    and "reg_email b \<noteq> []" and "reg_password b \<noteq> []"
    and "emailRegex_test (reg_email b)" and "8 \<le> length (reg_password b)"
    and "select_user_by_email d (reg_email b) = Inl checkError"
    and "insert_user (reg_concurrent E d) (new_user_row P E (reg_email b) (reg_password b)) = Inr (user, d2)"
  shows "register P E d req =
    (json_response 201 (RegisterOk ''User registered successfully'' (public_user user)), d2)"
  using assms by (simp add: register_def Let_def)

lemma insert_user_Inr:
  "insert_user d r = Inr (user, d2) \<Longrightarrow> user = r \<and> d2 = d\<lparr>users := users d @ [r]\<rparr>"
  by (auto simp: insert_user_def split: if_splits)

lemma single_Inr_iff: "(\<exists>r. single rows = Inr r) = (length rows = 1)"
  by (cases rows rule: list.exhaust) (auto simp: single_def split: list.splits)

lemma register_status:
  assumes "req_method req \<noteq> ''OPTIONS''" and "req_json req = Some b"
    and "reg_email b \<noteq> []" and "reg_password b \<noteq> []"
    and "emailRegex_test (reg_email b)" and "8 \<le> length (reg_password b)"
  shows "(\<exists>u. select_user_by_email d (reg_email b) = Inr u \<and>
            register P E d req = (error_response 409 ''User already exists with this email'', d)) \<or>
         (\<exists>e ie. select_user_by_email d (reg_email b) = Inl e \<and>
            insert_user (reg_concurrent E d) (new_user_row P E (reg_email b) (reg_password b)) = Inl ie \<and>
            register P E d req = (error_response 500 ''Failed to create user account'', reg_concurrent E d)) \<or>
         (\<exists>e. select_user_by_email d (reg_email b) = Inl e \<and>
            register P E d req =
              (json_response 201 (RegisterOk ''User registered successfully''
                 (public_user (new_user_row P E (reg_email b) (reg_password b)))),
               (reg_concurrent E d)\<lparr>users := users (reg_concurrent E d) @
                 [new_user_row P E (reg_email b) (reg_password b)]\<rparr>))"
proof (cases "select_user_by_email d (reg_email b)")
  case (Inr u)
  with register_taken [OF assms] show ?thesis by simp
next
  case (Inl e)
  show ?thesis
  proof (cases "insert_user (reg_concurrent E d) (new_user_row P E (reg_email b) (reg_password b))")
    case (Inl ie)
    with register_insert_failed [OF assms \<open>select_user_by_email d (reg_email b) = Inl e\<close>]
      \<open>select_user_by_email d (reg_email b) = Inl e\<close>
    show ?thesis by simp
  next
    case (Inr r)
    obtain user d2 where r: "r = (user, d2)" by (cases r)
    from insert_user_Inr [OF Inr [unfolded r]] register_created [OF assms \<open>select_user_by_email d (reg_email b) = Inl e\<close> Inr [unfolded r]]
      \<open>select_user_by_email d (reg_email b) = Inl e\<close>
    show ?thesis by simp
  qed
qed

text \<open>
  C4 (as the code has it). For a registration that passes the validation of its input:
  when the lookup finds no account and the insert then fails, with a uniqueness violation
  or any other error, the handler answers 500 \<open>Failed to create user account\<close>; and the
  409 conflict is answered only when the lookup before the insert has found the email.
\<close>

theorem register_insert_failure:
  assumes "req_method req \<noteq> ''OPTIONS''" and "req_json req = Some b"
    and "reg_email b \<noteq> []" and "reg_password b \<noteq> []"
    and "emailRegex_test (reg_email b)" and "8 \<le> length (reg_password b)"
  shows "(\<forall>e ie. select_user_by_email d (reg_email b) = Inl e \<and>
            insert_user (reg_concurrent E d) (new_user_row P E (reg_email b) (reg_password b)) = Inl ie \<longrightarrow>
            register P E d req =
              (error_response 500 ''Failed to create user account'', reg_concurrent E d)) \<and>
         (status (fst (register P E d req)) = 409 \<longrightarrow>
            (\<exists>u. select_user_by_email d (reg_email b) = Inr u))"
  using register_status [OF assms, of d P E] register_insert_failed [OF assms, of d _ E P]
  by auto

text \<open>
  C5 (as the code has it). A registration that passes the validation of its input is
  rejected with 409 exactly when one stored account has the same email as text, letter
  case included; and when it succeeds, the account row added carries the email as it
  was received, with no lower-case normalization.
\<close>

theorem register_email_exact:
  assumes "req_method req \<noteq> ''OPTIONS''" and "req_json req = Some b"
    and "reg_email b \<noteq> []" and "reg_password b \<noteq> []"
    and "emailRegex_test (reg_email b)" and "8 \<le> length (reg_password b)"
  shows "(status (fst (register P E d req)) = 409) =
           (length (filter (\<lambda>u. u_email u = reg_email b) (users d)) = 1) \<and>
         (status (fst (register P E d req)) = 201 \<longrightarrow>
            users (snd (register P E d req)) =
              users (reg_concurrent E d) @ [new_user_row P E (reg_email b) (reg_password b)] \<and>
            u_email (new_user_row P E (reg_email b) (reg_password b)) = reg_email b)"
proof -
  have iff: "(\<exists>u. select_user_by_email d (reg_email b) = Inr u) =
      (length (filter (\<lambda>u. u_email u = reg_email b) (users d)) = 1)"
    unfolding select_user_by_email_def by (rule single_Inr_iff)
  have email: "u_email (new_user_row P E (reg_email b) (reg_password b)) = reg_email b"
    by (simp add: new_user_row_def Let_def)
  from register_status [OF assms, of d P E] show ?thesis
    unfolding iff [symmetric] using email by auto
qed


lemma demo_emails_match: "emailRegex_test ''a@x.com''" "emailRegex_test ''A@x.com''"
  by (simp_all add: emailRegex_test_def emailChar_def strWhiteSpaceChar_def)

lemma char_of_97: "char_of (97::nat) = CHR ''a''"
proof -
  have "(of_char CHR ''a'' :: nat) = 97"
    by simp
  then have "char_of (97::nat) = char_of (of_char CHR ''a'' :: nat)"
    by simp
  then show ?thesis
    by (simp only: char_of_char)
qed

lemma demo_lower: "toLowerCase ''A@x.com'' = ''a@x.com''" "toLowerCase ''a@x.com'' = ''a@x.com''"
  by (simp_all add: toLowerCase_def lowerChar_def char_of_97)

lemma demo_register_request_fields [simp]:
  "req_method demo_register_request = ''POST''"
  "req_json demo_register_request = Some \<lparr>reg_email = ''a@x.com'', reg_password = ''Abcd1234''\<rparr>"
  "req_method demo_register_request2 = ''POST''"
  "req_json demo_register_request2 = Some \<lparr>reg_email = ''A@x.com'', reg_password = ''Abcd1234''\<rparr>"
  by (simp_all add: demo_register_request_def demo_register_request2_def)

lemma new_user_row_fields [simp]:
  "u_id (new_user_row P E email password) = reg_uuid E"
  "u_email (new_user_row P E email password) = email"
  "u_username (new_user_row P E email password) = fst (reg_wallet E)"
  "u_walletAddress (new_user_row P E email password) = fst (reg_wallet E)"
  by (simp_all add: new_user_row_def Let_def)

lemma demo_race_store: "reg_concurrent demo_race_env empty_db = demo_db"
  by (simp add: demo_race_env_def empty_db_def demo_db_def)

lemma demo_race_insert:
  "insert_user demo_db (new_user_row demo_platform demo_race_env ''a@x.com'' ''Abcd1234'') =
   Inl (UniqueViolation ''User_email_key'')"
  by (simp add: insert_user_def demo_db_def) (simp add: demo_race_env_def)

lemma demo_empty_lookup: "select_user_by_email empty_db e = Inl NoSingleRow"
  by (simp add: select_user_by_email_def empty_db_def single_def)

text \<open>
  C4 as stated fails. A registration of \<open>a@x.com\<close> starts on the empty store; its lookup
  finds no account. A concurrent registration of the same email commits before the insert,
  so the insert violates the uniqueness of \<open>email\<close>. The handler answers 500
  \<open>Failed to create user account\<close>, not the 409 conflict.
\<close>

theorem register_race_reports_500:
  "select_user_by_email empty_db ''a@x.com'' = Inl NoSingleRow \<and>
   insert_user (reg_concurrent demo_race_env empty_db)
     (new_user_row demo_platform demo_race_env ''a@x.com'' ''Abcd1234'') =
     Inl (UniqueViolation ''User_email_key'') \<and>
   register demo_platform demo_race_env empty_db demo_register_request =
     (error_response 500 ''Failed to create user account'', demo_db) \<and>
   status (fst (register demo_platform demo_race_env empty_db demo_register_request)) \<noteq> 409"
proof -
  have "register demo_platform demo_race_env empty_db demo_register_request =
     (error_response 500 ''Failed to create user account'', reg_concurrent demo_race_env empty_db)"
    by (rule register_insert_failed [where b = "\<lparr>reg_email = ''a@x.com'', reg_password = ''Abcd1234''\<rparr>"
          and checkError = NoSingleRow and insertError = "UniqueViolation ''User_email_key''"])
      (simp_all add: demo_emails_match demo_empty_lookup demo_race_store demo_race_insert)
  then show ?thesis
    by (simp add: demo_empty_lookup demo_race_store demo_race_insert)
qed

theorem register_insert_failure_witness:
  "register demo_platform demo_race_env empty_db demo_register_request =
     (error_response 500 ''Failed to create user account'', reg_concurrent demo_race_env empty_db) \<and>
   register demo_platform demo_register_env demo_db demo_register_request =
     (error_response 409 ''User already exists with this email'', demo_db) \<and>
   (\<exists>u. select_user_by_email demo_db ''a@x.com'' = Inr u)"
proof -
  have taken: "register demo_platform demo_register_env demo_db demo_register_request =
     (error_response 409 ''User already exists with this email'', demo_db)"
    by (rule register_taken [where b = "\<lparr>reg_email = ''a@x.com'', reg_password = ''Abcd1234''\<rparr>"
          and existingUser = demo_user])
      (simp_all add: demo_emails_match demo_select_email)
  from register_insert_failure [where P = demo_platform and E = demo_race_env and d = empty_db
      and req = demo_register_request and b = "\<lparr>reg_email = ''a@x.com'', reg_password = ''Abcd1234''\<rparr>"]
    register_insert_failure [where P = demo_platform and E = demo_register_env and d = demo_db
      and req = demo_register_request and b = "\<lparr>reg_email = ''a@x.com'', reg_password = ''Abcd1234''\<rparr>"]
    taken
  show ?thesis
    by (simp add: demo_emails_match demo_empty_lookup demo_race_store demo_race_insert)
qed

lemma demo_register2_run:
  "register demo_platform demo_register_env2 demo_db demo_register_request2 =
     (json_response 201 (RegisterOk ''User registered successfully''
        (public_user (new_user_row demo_platform demo_register_env2 ''A@x.com'' ''Abcd1234''))),
      demo_db\<lparr>users := users demo_db @
        [new_user_row demo_platform demo_register_env2 ''A@x.com'' ''Abcd1234'']\<rparr>)"
proof -
  have c: "reg_concurrent demo_register_env2 demo_db = demo_db"
    by (simp add: demo_register_env2_def)
  have sel: "select_user_by_email demo_db ''A@x.com'' = Inl NoSingleRow"
    by (simp add: select_user_by_email_def demo_db_def single_def)
  have ins: "insert_user demo_db (new_user_row demo_platform demo_register_env2 ''A@x.com'' ''Abcd1234'') =
    Inr (new_user_row demo_platform demo_register_env2 ''A@x.com'' ''Abcd1234'',
         demo_db\<lparr>users := users demo_db @
           [new_user_row demo_platform demo_register_env2 ''A@x.com'' ''Abcd1234'']\<rparr>)"
    by (simp add: insert_user_def demo_db_def) (simp add: demo_register_env2_def)
  show ?thesis
    by (rule register_created [where b = "\<lparr>reg_email = ''A@x.com'', reg_password = ''Abcd1234''\<rparr>"
          and checkError = NoSingleRow])
      (simp_all add: demo_emails_match sel c ins)
qed

text \<open>
  C5 as stated fails. The store holds the account of \<open>a@x.com\<close>. A registration of
  \<open>A@x.com\<close>, the same email without regard to case, succeeds with status 201, and the
  store then holds two accounts whose emails differ in letter case only, stored as they
  were received.
\<close>

theorem register_is_case_sensitive:
  "map u_email (users demo_db) = [''a@x.com''] \<and>
   toLowerCase ''A@x.com'' = toLowerCase ''a@x.com'' \<and>
   status (fst (register demo_platform demo_register_env2 demo_db demo_register_request2)) = 201 \<and>
   map u_email (users (snd (register demo_platform demo_register_env2 demo_db demo_register_request2))) =
     [''a@x.com'', ''A@x.com'']"
  by (simp add: demo_register2_run demo_lower) (simp add: demo_db_def)

theorem register_email_exact_witness:
  "status (fst (register demo_platform demo_register_env demo_db demo_register_request)) = 409 \<and>
   length (filter (\<lambda>u. u_email u = ''a@x.com'') (users demo_db)) = 1 \<and>
   status (fst (register demo_platform demo_register_env2 demo_db demo_register_request2)) \<noteq> 409 \<and>
   length (filter (\<lambda>u. u_email u = ''A@x.com'') (users demo_db)) \<noteq> 1 \<and>
   users (snd (register demo_platform demo_register_env2 demo_db demo_register_request2)) =
     users (reg_concurrent demo_register_env2 demo_db) @
       [new_user_row demo_platform demo_register_env2 ''A@x.com'' ''Abcd1234'']"
proof -
  have f: "length (filter (\<lambda>u. u_email u = ''a@x.com'') (users demo_db)) = 1"
    "length (filter (\<lambda>u. u_email u = ''A@x.com'') (users demo_db)) \<noteq> 1"
    by (simp_all add: demo_db_def)
  from register_email_exact [where P = demo_platform and E = demo_register_env and d = demo_db
      and req = demo_register_request and b = "\<lparr>reg_email = ''a@x.com'', reg_password = ''Abcd1234''\<rparr>"]
    register_email_exact [where P = demo_platform and E = demo_register_env2 and d = demo_db
      and req = demo_register_request2 and b = "\<lparr>reg_email = ''A@x.com'', reg_password = ''Abcd1234''\<rparr>"]
    f demo_register2_run
  show ?thesis
    by (simp add: demo_emails_match)
qed

section \<open>The upload-video-metadata module is rejected\<close>

text \<open>
  The register and the login module declare each name once and are accepted. The
  upload-video-metadata module declares \<open>key\<close> twice in one block and is rejected, so
  every request to the function ends with the \<open>SyntaxError\<close> of the module, whatever
  the handler would do, and the store is as it was.
\<close>

lemma register_login_modules_load:
  "load_module register_declarations = None" "load_module login_declarations = None"
  by (simp_all add: load_module_def register_declarations_def login_declarations_def)

lemma upload_module_rejected: "load_module upload_declarations = Some (SyntaxError ''key'')"
  by (simp add: load_module_def upload_declarations_def)

lemma key_declared_twice:
  "filter (\<lambda>x. fst x = ''key'') upload_declarations = [(''key'', 48), (''key'', 119)]"
  by (simp add: upload_declarations_def)

lemma upload_not_served: "upload_video_metadata handler d req = (Inl (SyntaxError ''key''), d)"
  by (simp add: upload_video_metadata_def upload_module_rejected)

lemma demo_register_run:
  "register demo_platform demo_register_env empty_db demo_register_request =
     (json_response 201 (RegisterOk ''User registered successfully'' (public_user demo_user)), demo_db)"
proof -
  have c: "reg_concurrent demo_register_env empty_db = empty_db"
    by (simp add: demo_register_env_def)
  have ins: "insert_user empty_db (new_user_row demo_platform demo_register_env ''a@x.com'' ''Abcd1234'') =
    Inr (demo_user, demo_db)"
    by (simp add: insert_user_def empty_db_def demo_db_def demo_user_def)
  show ?thesis
    by (rule register_created [where b = "\<lparr>reg_email = ''a@x.com'', reg_password = ''Abcd1234''\<rparr>"
          and checkError = NoSingleRow])
      (simp_all add: demo_emails_match demo_empty_lookup c ins)
qed

text \<open>
  C1. The round trip of the wrapped key has its wrap in register and its unwrap in
  upload-video-metadata (lines 105-152). The demo registration succeeds and stores the
  account with its bundle, the hex of the 32 random bytes of salt among it. A signing call
  for that account with the same password never unwraps the bundle: the module that
  holds the unwrap is rejected, the call ends with the \<open>SyntaxError\<close> on \<open>key\<close>, and
  no private key is recovered.
\<close>

theorem wrapped_key_never_unwrapped:
  "register demo_platform demo_register_env empty_db demo_register_request =
     (json_response 201 (RegisterOk ''User registered successfully'' (public_user demo_user)), demo_db) \<and>
   u_salt demo_user =
     bytes_to_hex (random_bytes (reg_random demo_register_env) 0 32) \<and>
   upload_video_metadata handler demo_db (demo_upload_request ''Abcd1234'') =
     (Inl (SyntaxError ''key''), demo_db)"
  by (simp add: demo_register_run upload_not_served)
    (simp add: demo_user_def new_user_row_def wrapPrivateKey_def Let_def)


text \<open>
  C3. A signing call for the demo account with a wrong password is not answered with
  401 \<open>Invalid password\<close>: the module is rejected and the call ends with its
  \<open>SyntaxError\<close>. The store is unchanged.
\<close>

theorem wrong_password_not_answered:
  "upload_video_metadata handler demo_db (demo_upload_request ''Wrong123'') =
     (Inl (SyntaxError ''key''), demo_db) \<and>
   fst (upload_video_metadata handler demo_db (demo_upload_request ''Wrong123'')) \<noteq>
     Inr (error_response 401 ''Invalid password'')"
  by (simp add: upload_not_served)


text \<open>
  C7. The demo login succeeds and issues a token whose payload has \<open>iat\<close> 5 and
  \<open>exp\<close> 5 plus seven days, in seconds. Presented as a bearer token to the signing flow,
  the token is never verified: the call ends with the \<open>SyntaxError\<close> of the module, at
  any time, and so does a call with a byte of the token changed; neither is accepted and
  neither is answered with 401.
\<close>

theorem issued_token_never_verified:
  "login demo_platform demo_login_env demo_db demo_login_request =
     (json_response 200 (LoginOk ''Login successful'' ''demo-token'' (public_user demo_user)),
      update_user_updatedAt demo_db ''u1'' ''1970-01-01T00:00:05.000Z'') \<and>
   jwt_iat (login_payload demo_login_env demo_user) = 5 \<and>
   jwt_exp (login_payload demo_login_env demo_user) = 5 + 7 * 24 * 60 * 60 \<and>
   req_authorization (demo_upload_request ''Abcd1234'') = Some (''Bearer '' @ ''demo-token'') \<and>
   upload_video_metadata handler demo_db (demo_upload_request ''Abcd1234'') =
     (Inl (SyntaxError ''key''), demo_db) \<and>
   upload_video_metadata handler demo_db
     ((demo_upload_request ''Abcd1234'')\<lparr>req_authorization := Some ''Bearer demo-tokem''\<rparr>) =
     (Inl (SyntaxError ''key''), demo_db)"
  by (simp add: demo_login_run upload_not_served)
    (simp add: login_payload_def demo_login_env_def getNumericDate_def)

text \<open>
  C9. On the empty store the subject of the token is the id of no account. The signing
  call is not answered with 404 \<open>User not found\<close>: the module is rejected and the call
  ends with its \<open>SyntaxError\<close>. The store is unchanged.
\<close>

theorem unknown_subject_not_answered:
  "users empty_db = [] \<and>
   upload_video_metadata handler empty_db (demo_upload_request ''Abcd1234'') =
     (Inl (SyntaxError ''key''), empty_db) \<and>
   fst (upload_video_metadata handler empty_db (demo_upload_request ''Abcd1234'')) \<noteq>
     Inr (error_response 404 ''User not found'')"
  by (simp add: upload_not_served empty_db_def)

end
